theory Spec2Isabelle
  imports Main "HOL-Library.AList" "HOL-Library.Sublist"
begin

section \<open>The RobotModel binding of torch-moveit\<close>

text \<open>
  The file \<^verbatim>\<open>src/robot_model.cpp\<close> exports eight functions over a handle of type
  \<^verbatim>\<open>RobotModelPtr*\<close>: a raw pointer to a heap-allocated shared pointer to a MoveIt
  \<^verbatim>\<open>RobotModel\<close>. The claims are about aliasing (two handles sharing a model), about
  reference counts and about what happens to a null or an empty handle, so the
  embedding keeps an explicit store: the handle objects, the model objects with their
  use counts, and the \<^verbatim>\<open>std::string\<close> objects that \<^verbatim>\<open>printModelInfo\<close> writes to.
  Undefined behaviour of the C++ is a value of type \<open>fault\<close>.
\<close>

subsection \<open>Data\<close>

type_synonym addr = nat

abbreviation nullptr :: addr where
  "nullptr \<equiv> 0"

text \<open>
  The class \<^verbatim>\<open>robot_model::RobotModel\<close> belongs to MoveIt. The binding calls five of its
  const methods and nothing else, so a model object is the record of what those methods
  return: \<open>getName\<close>, \<open>getModelFrame\<close> and \<open>getRootJointName\<close> return a
  \<^verbatim>\<open>const std::string&\<close>, \<open>isEmpty\<close> a \<^verbatim>\<open>bool\<close>, and \<open>dump\<close> is the text that
  \<^verbatim>\<open>printModelInfo(std::ostream&)\<close> writes to the stream it is given.
\<close>

record RobotModel =
  getName :: string
  getModelFrame :: string
  isEmpty :: bool
  dump :: string
  getRootJointName :: string

text \<open>\<^verbatim>\<open>void RobotModel::printModelInfo(std::ostream &out) const\<close>: appends to the stream.\<close>

definition printModelInfo :: "RobotModel \<Rightarrow> string \<Rightarrow> string" where
  "printModelInfo m out = out @ dump m"

text \<open>
  \<^verbatim>\<open>typedef robot_model::RobotModelPtr RobotModelPtr\<close>: a shared pointer, either empty
  or referring to a model object.
\<close>

datatype RobotModelPtr = Empty | Populated addr

text \<open>A model object on the heap together with the use count of its control block.\<close>

record counted =
  pointee :: RobotModel
  use_count :: nat

record heap =
  handles :: "(addr \<times> RobotModelPtr) list"
  models :: "addr \<rightharpoonup> counted"
  strings :: "addr \<rightharpoonup> string"

datatype fault = NullDeref | InvalidPointer | EmptyDeref

subsection \<open>Pointer and shared-pointer primitives\<close>

text \<open>\<^verbatim>\<open>*ptr\<close> and \<^verbatim>\<open>ptr->\<close> on a \<^verbatim>\<open>RobotModelPtr*\<close>.\<close>

definition deref :: "heap \<Rightarrow> addr \<Rightarrow> fault + RobotModelPtr" where
  "deref H ptr =
     (if ptr = nullptr then Inl NullDeref
      else case map_of (handles H) ptr of
             None \<Rightarrow> Inl InvalidPointer
           | Some sp \<Rightarrow> Inr sp)"

text \<open>\<^verbatim>\<open>shared_ptr::operator->\<close>: the pointee of a non-empty shared pointer.\<close>

definition arrow :: "heap \<Rightarrow> RobotModelPtr \<Rightarrow> fault + RobotModel" where
  "arrow H sp =
     (case sp of
        Empty \<Rightarrow> Inl EmptyDeref
      | Populated a \<Rightarrow>
          (case models H a of
             None \<Rightarrow> Inl InvalidPointer
           | Some c \<Rightarrow> Inr (pointee c)))"

text \<open>The expression \<^verbatim>\<open>(*ptr)->\<close> that every query starts with.\<close>

definition deref_arrow :: "heap \<Rightarrow> addr \<Rightarrow> fault + RobotModel" where
  "deref_arrow H ptr =
     (case deref H ptr of
        Inl e \<Rightarrow> Inl e
      | Inr sp \<Rightarrow> arrow H sp)"

text \<open>
  Giving up the reference a shared pointer holds (its destructor, and the second half
  of \<^verbatim>\<open>reset()\<close>): nothing for an empty one; otherwise the use count goes down by one
  and the last owner destroys the model.
\<close>

definition drop_reference :: "(addr \<rightharpoonup> counted) \<Rightarrow> RobotModelPtr \<Rightarrow> fault + (addr \<rightharpoonup> counted)" where
  "drop_reference M sp =
     (case sp of
        Empty \<Rightarrow> Inr M
      | Populated a \<Rightarrow>
          (case M a of
             None \<Rightarrow> Inl InvalidPointer
           | Some c \<Rightarrow>
               Inr (if use_count c \<le> 1 then M(a := None)
                    else M(a \<mapsto> c\<lparr>use_count := use_count c - 1\<rparr>))))"

text \<open>\<^verbatim>\<open>shared_ptr::reset()\<close>: the pointer becomes empty and its reference is given up.\<close>

definition reset :: "(addr \<rightharpoonup> counted) \<Rightarrow> RobotModelPtr \<Rightarrow> fault + ((addr \<rightharpoonup> counted) \<times> RobotModelPtr)" where
  "reset M sp =
     (case drop_reference M sp of
        Inl e \<Rightarrow> Inl e
      | Inr M' \<Rightarrow> Inr (M', Empty))"

text \<open>
  An address for \<^verbatim>\<open>new\<close>: not null and not the address of a handle that is still
  allocated. Memory is unbounded in this model, so \<^verbatim>\<open>new\<close> does not throw.
\<close>

definition fresh :: "(addr \<times> 'a) list \<Rightarrow> addr" where
  "fresh al = Suc (foldr max (map fst al) 0)"

text \<open>
  \<^verbatim>\<open>delete ptr\<close> for a non-null \<^verbatim>\<open>ptr\<close>: the destructor of the shared pointer runs, then
  the handle object is freed.
\<close>

definition delete_expr :: "heap \<Rightarrow> addr \<Rightarrow> fault + heap" where
  "delete_expr H ptr =
     (case map_of (handles H) ptr of
        None \<Rightarrow> Inl InvalidPointer
      | Some sp \<Rightarrow>
          (case drop_reference (models H) sp of
             Inl e \<Rightarrow> Inl e
           | Inr M' \<Rightarrow> Inr (H\<lparr>handles := AList.delete ptr (handles H), models := M'\<rparr>)))"

text \<open>\<^verbatim>\<open>*output = v\<close> on a \<^verbatim>\<open>std::string*\<close>.\<close>

definition assign_string :: "heap \<Rightarrow> addr \<Rightarrow> string \<Rightarrow> fault + heap" where
  "assign_string H output v =
     (if output = nullptr then Inl NullDeref
      else case strings H output of
             None \<Rightarrow> Inl InvalidPointer
           | Some old \<Rightarrow> Inr (H\<lparr>strings := (strings H)(output \<mapsto> v)\<rparr>))"

subsection \<open>The exported functions\<close>

text \<open>
  A returned \<^verbatim>\<open>const char*\<close> is represented by the text of the \<^verbatim>\<open>std::string\<close> it points
  into. Every function takes the heap and returns the heap it leaves.
\<close>

definition RobotModel_new :: "heap \<Rightarrow> addr \<times> heap" where
  "RobotModel_new H =
     (let ptr = fresh (handles H)
      in (ptr, H\<lparr>handles := AList.update ptr Empty (handles H)\<rparr>))"

definition RobotModel_delete :: "heap \<Rightarrow> addr \<Rightarrow> fault + heap" where
  "RobotModel_delete H ptr =
     (if ptr \<noteq> nullptr then delete_expr H ptr else Inr H)"

definition RobotModel_release :: "heap \<Rightarrow> addr \<Rightarrow> fault + heap" where
  "RobotModel_release H ptr =
     (case deref H ptr of
        Inl e \<Rightarrow> Inl e
      | Inr sp \<Rightarrow>
          (case reset (models H) sp of
             Inl e \<Rightarrow> Inl e
           | Inr (M', sp') \<Rightarrow>
               Inr (H\<lparr>handles := AList.update ptr sp' (handles H), models := M'\<rparr>)))"

definition RobotModel_getName :: "heap \<Rightarrow> addr \<Rightarrow> fault + (string \<times> heap)" where
  "RobotModel_getName H ptr =
     (case deref_arrow H ptr of
        Inl e \<Rightarrow> Inl e
      | Inr m \<Rightarrow> Inr (getName m, H))"

definition RobotModel_getModelFrame :: "heap \<Rightarrow> addr \<Rightarrow> fault + (string \<times> heap)" where
  "RobotModel_getModelFrame H ptr =
     (case deref_arrow H ptr of
        Inl e \<Rightarrow> Inl e
      | Inr m \<Rightarrow> Inr (getModelFrame m, H))"

definition RobotModel_isEmpty :: "heap \<Rightarrow> addr \<Rightarrow> fault + (bool \<times> heap)" where
  "RobotModel_isEmpty H ptr =
     (case deref_arrow H ptr of
        Inl e \<Rightarrow> Inl e
      | Inr m \<Rightarrow> Inr (isEmpty m, H))"

definition RobotModel_printModelInfo :: "heap \<Rightarrow> addr \<Rightarrow> addr \<Rightarrow> fault + heap" where
  "RobotModel_printModelInfo H ptr output =
     (let s = []
      in case deref_arrow H ptr of
           Inl e \<Rightarrow> Inl e
         | Inr m \<Rightarrow>
             (let s' = printModelInfo m s
              in assign_string H output s'))"

definition RobotModel_getRootJointName :: "heap \<Rightarrow> addr \<Rightarrow> fault + (string \<times> heap)" where
  "RobotModel_getRootJointName H ptr =
     (case deref_arrow H ptr of
        Inl e \<Rightarrow> Inl e
      | Inr m \<Rightarrow> Inr (getRootJointName m, H))"

subsection \<open>The query operations as one table\<close>

text \<open>
  The five functions that read the model are collected in one datatype, so that a
  property of every query operation is a statement about \<open>run_query\<close>. The second
  address is the \<^verbatim>\<open>std::string*\<close> of \<^verbatim>\<open>printModelInfo\<close>; the other queries ignore it.
\<close>

datatype query = GetName | GetModelFrame | IsEmpty | PrintModelInfo | GetRootJointName

datatype answer = Text string | Flag bool | Written

fun run_query :: "heap \<Rightarrow> query \<Rightarrow> addr \<Rightarrow> addr \<Rightarrow> fault + (answer \<times> heap)" where
  "run_query H GetName ptr output =
     (case RobotModel_getName H ptr of
        Inl e \<Rightarrow> Inl e
      | Inr (s, H') \<Rightarrow> Inr (Text s, H'))"
| "run_query H GetModelFrame ptr output =
     (case RobotModel_getModelFrame H ptr of
        Inl e \<Rightarrow> Inl e
      | Inr (s, H') \<Rightarrow> Inr (Text s, H'))"
| "run_query H IsEmpty ptr output =
     (case RobotModel_isEmpty H ptr of
        Inl e \<Rightarrow> Inl e
      | Inr (b, H') \<Rightarrow> Inr (Flag b, H'))"
| "run_query H PrintModelInfo ptr output =
     (case RobotModel_printModelInfo H ptr output of
        Inl e \<Rightarrow> Inl e
      | Inr H' \<Rightarrow> Inr (Written, H'))"
| "run_query H GetRootJointName ptr output =
     (case RobotModel_getRootJointName H ptr of
        Inl e \<Rightarrow> Inl e
      | Inr (s, H') \<Rightarrow> Inr (Text s, H'))"

definition query_operations :: "query list" where
  "query_operations = [GetName, GetModelFrame, IsEmpty, PrintModelInfo, GetRootJointName]"

subsection \<open>Well-formed handles\<close>

text \<open>
  A shared pointer keeps its pointee alive: a populated slot refers to a model object
  that is allocated.
\<close>

definition refers_live :: "heap \<Rightarrow> RobotModelPtr \<Rightarrow> bool" where
  "refers_live H sp = (case sp of Empty \<Rightarrow> True | Populated a \<Rightarrow> models H a \<noteq> None)"

text \<open>
  Modelled from the spec: \<^verbatim>\<open>RobotModel::printModelInfo\<close> is MoveIt's and is not under
  \<^verbatim>\<open>src/\<close>. The spec says of the text it produces for a populated handle that it is
  non-empty and contains the model's name.
\<close>

definition dump_contract :: "RobotModel \<Rightarrow> bool" where
  "dump_contract m \<longleftrightarrow> dump m \<noteq> [] \<and> sublist (getName m) (dump m)"

subsection \<open>A sample heap\<close>

text \<open>
  Handles 1 and 2 share the model at address 10, handle 3 is empty, and address 20
  holds a \<^verbatim>\<open>std::string\<close>.
\<close>

definition panda :: RobotModel where
  "panda = \<lparr>getName = ''panda'', getModelFrame = ''world'', isEmpty = False,
            dump = ''Model panda in frame world'', getRootJointName = ''virtual_joint''\<rparr>"

definition two_handles :: heap where
  "two_handles =
     \<lparr>handles = [(1, Populated 10), (2, Populated 10), (3, Empty)],
      models = [10 \<mapsto> \<lparr>pointee = panda, use_count = 2\<rparr>],
      strings = [20 \<mapsto> ''stale'']\<rparr>"

section \<open>Properties\<close>

subsection \<open>Auxiliary facts\<close>

lemma foldr_max_ge: "k \<in> set ks \<Longrightarrow> k \<le> foldr max ks (0::nat)"
  by (induction ks) (auto simp: max_def)

lemma fresh_unused: "map_of al (fresh al) = None"
proof -
  have "fresh al \<notin> fst ` set al"
  proof
    assume "fresh al \<in> fst ` set al"
    then have "fresh al \<in> set (map fst al)" by simp
    then have "fresh al \<le> foldr max (map fst al) 0" by (rule foldr_max_ge)
    then show False by (simp add: fresh_def)
  qed
  then show ?thesis by (simp add: map_of_eq_None_iff)
qed

lemma fresh_not_null: "0 < fresh al"
  by (simp add: fresh_def)

lemma deref_live:
  "ptr \<noteq> nullptr \<Longrightarrow> map_of (handles H) ptr = Some sp \<Longrightarrow> deref H ptr = Inr sp"
  by (simp add: deref_def)

lemma deref_null: "deref H nullptr = Inl NullDeref"
  by (simp add: deref_def)

lemma deref_InrD:
  "deref H ptr = Inr sp \<Longrightarrow> ptr \<noteq> nullptr \<and> map_of (handles H) ptr = Some sp"
  by (auto simp: deref_def split: if_splits option.splits)

lemma deref_arrow_populated:
  "ptr \<noteq> nullptr \<Longrightarrow> map_of (handles H) ptr = Some (Populated a) \<Longrightarrow> models H a = Some c \<Longrightarrow>
   deref_arrow H ptr = Inr (pointee c)"
  by (simp add: deref_arrow_def deref_live arrow_def)

lemma deref_arrow_null: "deref_arrow H nullptr = Inl NullDeref"
  by (simp add: deref_arrow_def deref_null)

lemma deref_arrow_empty:
  "ptr \<noteq> nullptr \<Longrightarrow> map_of (handles H) ptr = Some Empty \<Longrightarrow> deref_arrow H ptr = Inl EmptyDeref"
  by (simp add: deref_arrow_def deref_live arrow_def)

lemma deref_arrow_InrD:
  "deref_arrow H ptr = Inr m \<Longrightarrow>
   ptr \<noteq> nullptr \<and>
   (\<exists>a c. map_of (handles H) ptr = Some (Populated a) \<and> models H a = Some c \<and> pointee c = m)"
  by (auto simp: deref_arrow_def arrow_def dest!: deref_InrD
           split: sum.splits RobotModelPtr.splits option.splits)

lemma drop_reference_live:
  "refers_live H sp \<Longrightarrow> \<exists>M'. drop_reference (models H) sp = Inr M'"
  by (auto simp: refers_live_def drop_reference_def split: RobotModelPtr.splits)

lemma drop_reference_Empty: "drop_reference M Empty = Inr M"
  by (simp add: drop_reference_def)

lemma drop_reference_Populated:
  "M a = Some c \<Longrightarrow>
   drop_reference M (Populated a) =
     Inr (if use_count c \<le> 1 then M(a := None) else M(a \<mapsto> c\<lparr>use_count := use_count c - 1\<rparr>))"
  by (simp add: drop_reference_def)

lemma delete_live:
  assumes "ptr \<noteq> nullptr" and "map_of (handles H) ptr = Some sp"
    and "drop_reference (models H) sp = Inr M'"
  shows "RobotModel_delete H ptr = Inr (H\<lparr>handles := AList.delete ptr (handles H), models := M'\<rparr>)"
  using assms by (simp add: RobotModel_delete_def delete_expr_def)

lemma delete_null: "RobotModel_delete H nullptr = Inr H"
  by (simp add: RobotModel_delete_def)

text \<open>
  A pointer that is not null and not the address of an allocated handle (a handle that
  was destroyed already, say) makes \<^verbatim>\<open>delete\<close> fault: destroy is called once per handle.
\<close>

lemma delete_dangling:
  "ptr \<noteq> nullptr \<Longrightarrow> map_of (handles H) ptr = None \<Longrightarrow>
   RobotModel_delete H ptr = Inl InvalidPointer"
  by (simp add: RobotModel_delete_def delete_expr_def)

lemma release_live:
  assumes "ptr \<noteq> nullptr" and "map_of (handles H) ptr = Some sp"
    and "drop_reference (models H) sp = Inr M'"
  shows "RobotModel_release H ptr = Inr (H\<lparr>handles := AList.update ptr Empty (handles H), models := M'\<rparr>)"
  using assms by (simp add: RobotModel_release_def deref_live reset_def)

lemma release_null: "RobotModel_release H nullptr = Inl NullDeref"
  by (simp add: RobotModel_release_def deref_null)

lemma release_InrD:
  "RobotModel_release H ptr = Inr H' \<Longrightarrow> ptr \<noteq> nullptr \<and> map_of (handles H) ptr \<noteq> None"
  by (auto simp: RobotModel_release_def dest!: deref_InrD split: sum.splits)

lemma printModelInfo_live:
  assumes "ptr \<noteq> nullptr" and "map_of (handles H) ptr = Some (Populated a)" and "models H a = Some c"
    and "output \<noteq> nullptr" and "strings H output = Some old"
  shows "RobotModel_printModelInfo H ptr output = Inr (H\<lparr>strings := (strings H)(output \<mapsto> dump (pointee c))\<rparr>)"
  using assms
  by (simp add: RobotModel_printModelInfo_def deref_arrow_populated printModelInfo_def assign_string_def)

lemma printModelInfo_InrD:
  "RobotModel_printModelInfo H ptr output = Inr H' \<Longrightarrow>
   (\<exists>m. deref_arrow H ptr = Inr m) \<and> handles H' = handles H \<and> models H' = models H"
  by (auto simp: RobotModel_printModelInfo_def assign_string_def split: sum.splits if_splits option.splits)

lemma run_query_null: "run_query H q nullptr output = Inl NullDeref"
  by (cases q)
     (simp_all add: RobotModel_getName_def RobotModel_getModelFrame_def RobotModel_isEmpty_def
        RobotModel_printModelInfo_def RobotModel_getRootJointName_def deref_arrow_null)

lemma run_query_empty:
  "ptr \<noteq> nullptr \<Longrightarrow> map_of (handles H) ptr = Some Empty \<Longrightarrow>
   run_query H q ptr output = Inl EmptyDeref"
  by (cases q)
     (simp_all add: RobotModel_getName_def RobotModel_getModelFrame_def RobotModel_isEmpty_def
        RobotModel_printModelInfo_def RobotModel_getRootJointName_def deref_arrow_empty)

lemma run_query_InrD:
  "run_query H q ptr output = Inr r \<Longrightarrow> \<exists>m. deref_arrow H ptr = Inr m"
  by (cases q)
     (auto simp: RobotModel_getName_def RobotModel_getModelFrame_def RobotModel_isEmpty_def
        RobotModel_getRootJointName_def dest: printModelInfo_InrD split: sum.splits)

lemma run_query_populated:
  assumes "ptr \<noteq> nullptr" and "map_of (handles H) ptr = Some (Populated a)" and "models H a = Some c"
    and "q = PrintModelInfo \<longrightarrow> output \<noteq> nullptr \<and> strings H output \<noteq> None"
  shows "\<exists>r. run_query H q ptr output = Inr r"
proof (cases q)
  case PrintModelInfo
  with assms(4) obtain old where "output \<noteq> nullptr" "strings H output = Some old" by auto
  with assms(1-3) PrintModelInfo show ?thesis by (simp add: printModelInfo_live)
qed (use assms(1-3) in \<open>simp_all add: RobotModel_getName_def RobotModel_getModelFrame_def
        RobotModel_isEmpty_def RobotModel_getRootJointName_def deref_arrow_populated\<close>)

subsection \<open>getName\<close>

text \<open>
  C1. A handle is populated with a model when it is a non-null pointer to an allocated
  handle object whose slot refers to that model. On such a handle \<open>getName\<close> returns
  the name of the model and leaves the heap as it was; in particular it returns
  \<open>''panda''\<close> when the model is named so.
\<close>

theorem getName_returns_model_name:
  assumes "ptr \<noteq> nullptr"
    and "map_of (handles H) ptr = Some (Populated a)"
    and "models H a = Some c"
  shows "RobotModel_getName H ptr = Inr (getName (pointee c), H) \<and>
         (getName (pointee c) = ''panda'' \<longrightarrow> RobotModel_getName H ptr = Inr (''panda'', H))"
  using assms by (simp add: RobotModel_getName_def deref_arrow_populated)

theorem getName_returns_model_name_witness:
  "RobotModel_getName two_handles 1 = Inr (''panda'', two_handles)"
  using getName_returns_model_name [of 1 two_handles 10 "\<lparr>pointee = panda, use_count = 2\<rparr>"]
  by (simp add: two_handles_def panda_def)

subsection \<open>create\<close>

text \<open>
  C4. \<open>RobotModel_new\<close> has no failing branch: on every heap it returns a non-null
  pointer that was not allocated before, the new handle's slot is \<open>Empty\<close>, and
  every other handle, every model and every string is as before.
\<close>

theorem new_returns_empty_handle:
  "\<exists>ptr H'. RobotModel_new H = (ptr, H') \<and> ptr \<noteq> nullptr \<and>
     map_of (handles H) ptr = None \<and>
     map_of (handles H') ptr = Some Empty \<and>
     (\<forall>q. q \<noteq> ptr \<longrightarrow> map_of (handles H') q = map_of (handles H) q) \<and>
     models H' = models H \<and> strings H' = strings H"
  by (simp add: RobotModel_new_def Let_def fresh_unused fresh_not_null update_conv')

theorem new_returns_empty_handle_witness:
  "\<exists>H'. RobotModel_new two_handles = (4, H') \<and> map_of (handles H') 4 = Some Empty \<and>
     map_of (handles H') 1 = Some (Populated 10)"
  using new_returns_empty_handle [of two_handles]
  by (simp add: RobotModel_new_def two_handles_def fresh_def)

subsection \<open>clear\<close>

text \<open>
  C9. On a non-null handle whose slot is already \<open>Empty\<close>, \<open>RobotModel_release\<close>
  returns the heap unchanged; and on any heap and pointer, running it twice gives what
  running it once gives (the same heap, or the same fault).
\<close>

theorem release_idempotent:
  "(ptr \<noteq> nullptr \<and> map_of (handles H) ptr = Some Empty \<longrightarrow> RobotModel_release H ptr = Inr H) \<and>
   (case RobotModel_release H ptr of Inl e \<Rightarrow> Inl e | Inr H' \<Rightarrow> RobotModel_release H' ptr)
     = RobotModel_release H ptr"
proof
  show "ptr \<noteq> nullptr \<and> map_of (handles H) ptr = Some Empty \<longrightarrow> RobotModel_release H ptr = Inr H"
    by (simp add: RobotModel_release_def deref_live reset_def drop_reference_def update_triv)
next
  show "(case RobotModel_release H ptr of Inl e \<Rightarrow> Inl e | Inr H' \<Rightarrow> RobotModel_release H' ptr)
          = RobotModel_release H ptr"
  proof (cases "RobotModel_release H ptr")
    case (Inl e)
    then show ?thesis by simp
  next
    case (Inr H')
    then obtain sp M' where sp: "deref H ptr = Inr sp"
      and H': "H' = H\<lparr>handles := AList.update ptr Empty (handles H), models := M'\<rparr>"
      by (auto simp: RobotModel_release_def reset_def split: sum.splits)
    from sp have nn: "ptr \<noteq> nullptr" by (auto dest: deref_InrD)
    have "map_of (handles H') ptr = Some Empty" by (simp add: H' update_conv')
    with nn have "deref H' ptr = Inr Empty" by (rule deref_live)
    then have "RobotModel_release H' ptr = Inr H'"
      by (simp add: RobotModel_release_def reset_def drop_reference_def H')
    with Inr show ?thesis by simp
  qed
qed

theorem release_idempotent_witness:
  "RobotModel_release two_handles 3 = Inr two_handles \<and>
   (case RobotModel_release two_handles 1 of Inl e \<Rightarrow> Inl e | Inr H' \<Rightarrow> RobotModel_release H' 1)
     = RobotModel_release two_handles 1"
  using release_idempotent [of 3 two_handles] release_idempotent [of 1 two_handles]
  by (simp add: two_handles_def)

text \<open>
  C3. On every non-null pointer to an allocated handle object (whose slot, if populated,
  refers to an allocated model), \<open>RobotModel_release\<close> returns normally; afterwards
  the handle object is still allocated and its slot is \<open>Empty\<close>, the other handles
  and the strings are untouched, the model the slot referred to has lost one reference
  (its use count is one less, or the model is destroyed when that was the last
  reference), and \<open>RobotModel_delete\<close> on the same handle then succeeds and frees it.
\<close>

theorem release_empties_slot:
  assumes "ptr \<noteq> nullptr"
    and "map_of (handles H) ptr = Some sp"
    and "refers_live H sp"
  shows "\<exists>H'. RobotModel_release H ptr = Inr H' \<and>
           map_of (handles H') ptr = Some Empty \<and>
           (\<forall>q. q \<noteq> ptr \<longrightarrow> map_of (handles H') q = map_of (handles H) q) \<and>
           strings H' = strings H \<and>
           (sp = Empty \<longrightarrow> models H' = models H) \<and>
           (\<forall>a c. sp = Populated a \<and> models H a = Some c \<longrightarrow>
              models H' = (if use_count c \<le> 1 then (models H)(a := None)
                           else (models H)(a \<mapsto> c\<lparr>use_count := use_count c - 1\<rparr>))) \<and>
           (\<exists>H''. RobotModel_delete H' ptr = Inr H'' \<and> map_of (handles H'') ptr = None \<and>
                  models H'' = models H')"
proof -
  from assms(3) obtain M' where M': "drop_reference (models H) sp = Inr M'"
    using drop_reference_live by blast
  let ?H' = "H\<lparr>handles := AList.update ptr Empty (handles H), models := M'\<rparr>"
  have rel: "RobotModel_release H ptr = Inr ?H'"
    using assms(1,2) M' by (rule release_live)
  have slot: "map_of (handles ?H') ptr = Some Empty" by (simp add: update_conv')
  have others: "\<forall>q. q \<noteq> ptr \<longrightarrow> map_of (handles ?H') q = map_of (handles H) q"
    by (simp add: update_conv')
  have str: "strings ?H' = strings H" by simp
  have emp: "sp = Empty \<longrightarrow> models ?H' = models H"
    using M' by (auto simp: drop_reference_Empty)
  have pop: "\<forall>a c. sp = Populated a \<and> models H a = Some c \<longrightarrow>
              models ?H' = (if use_count c \<le> 1 then (models H)(a := None)
                           else (models H)(a \<mapsto> c\<lparr>use_count := use_count c - 1\<rparr>))"
    using M' by (auto simp: drop_reference_Populated)
  have "RobotModel_delete ?H' ptr = Inr (?H'\<lparr>handles := AList.delete ptr (handles ?H'), models := M'\<rparr>)"
    using assms(1) slot by (rule delete_live) (simp add: drop_reference_Empty)
  then have del: "\<exists>H''. RobotModel_delete ?H' ptr = Inr H'' \<and> map_of (handles H'') ptr = None \<and>
                  models H'' = models ?H'"
    by (simp add: delete_conv')
  from rel slot others str emp pop del show ?thesis by blast
qed

theorem release_empties_slot_witness:
  "\<exists>H'. RobotModel_release two_handles 1 = Inr H' \<and>
         map_of (handles H') 1 = Some Empty \<and>
         map_of (handles H') 2 = Some (Populated 10) \<and>
         models H' 10 = Some \<lparr>pointee = panda, use_count = 1\<rparr> \<and>
         (\<exists>H''. RobotModel_delete H' 1 = Inr H'' \<and> map_of (handles H'') 1 = None)"
proof -
  have "(1::nat) \<noteq> nullptr" by simp
  moreover have "map_of (handles two_handles) 1 = Some (Populated 10)"
    by (simp add: two_handles_def)
  moreover have "refers_live two_handles (Populated 10)"
    by (simp add: two_handles_def refers_live_def)
  ultimately obtain H' where H': "RobotModel_release two_handles 1 = Inr H'"
      "map_of (handles H') 1 = Some Empty"
      "\<forall>q. q \<noteq> 1 \<longrightarrow> map_of (handles H') q = map_of (handles two_handles) q"
      "\<forall>a c. Populated 10 = Populated a \<and> models two_handles a = Some c \<longrightarrow>
              models H' = (if use_count c \<le> 1 then (models two_handles)(a := None)
                           else (models two_handles)(a \<mapsto> c\<lparr>use_count := use_count c - 1\<rparr>))"
      "\<exists>H''. RobotModel_delete H' 1 = Inr H'' \<and> map_of (handles H'') 1 = None \<and>
                  models H'' = models H'"
    using release_empties_slot [of 1 two_handles "Populated 10"] by blast
  from H'(3) have "map_of (handles H') 2 = Some (Populated 10)" by (simp add: two_handles_def)
  moreover from H'(4) have "models H' 10 = Some \<lparr>pointee = panda, use_count = 1\<rparr>"
    by (simp add: two_handles_def)
  ultimately show ?thesis using H'(1,2,5) by blast
qed

subsection \<open>destroy\<close>

text \<open>
  C2. A handle value is the null pointer or a pointer to an allocated handle object (one
  that create returned and destroy has not yet freed). On the null pointer
  \<open>RobotModel_delete\<close> returns the heap unchanged. On a non-null handle it returns
  normally, the handle object is no longer allocated, the reference its slot held is
  given up, and the other handles and the strings are untouched.
\<close>

theorem delete_safe:
  "RobotModel_delete H nullptr = Inr H \<and>
   (ptr \<noteq> nullptr \<and> map_of (handles H) ptr = Some sp \<and> refers_live H sp \<longrightarrow>
      (\<exists>H'. RobotModel_delete H ptr = Inr H' \<and>
            map_of (handles H') ptr = None \<and>
            (\<forall>q. q \<noteq> ptr \<longrightarrow> map_of (handles H') q = map_of (handles H) q) \<and>
            drop_reference (models H) sp = Inr (models H') \<and>
            strings H' = strings H))"
proof (intro conjI impI)
  show "RobotModel_delete H nullptr = Inr H" by (rule delete_null)
next
  assume a: "ptr \<noteq> nullptr \<and> map_of (handles H) ptr = Some sp \<and> refers_live H sp"
  then obtain M' where M': "drop_reference (models H) sp = Inr M'"
    using drop_reference_live by blast
  let ?H' = "H\<lparr>handles := AList.delete ptr (handles H), models := M'\<rparr>"
  from a M' have "RobotModel_delete H ptr = Inr ?H'" by (simp add: delete_live)
  moreover have "map_of (handles ?H') ptr = None" by (simp add: delete_conv')
  moreover have "\<forall>q. q \<noteq> ptr \<longrightarrow> map_of (handles ?H') q = map_of (handles H) q" by simp
  moreover have "drop_reference (models H) sp = Inr (models ?H')" using M' by simp
  moreover have "strings ?H' = strings H" by simp
  ultimately show "\<exists>H'. RobotModel_delete H ptr = Inr H' \<and>
            map_of (handles H') ptr = None \<and>
            (\<forall>q. q \<noteq> ptr \<longrightarrow> map_of (handles H') q = map_of (handles H) q) \<and>
            drop_reference (models H) sp = Inr (models H') \<and>
            strings H' = strings H" by blast
qed

theorem delete_safe_witness:
  "RobotModel_delete two_handles nullptr = Inr two_handles \<and>
   (\<exists>H'. RobotModel_delete two_handles 1 = Inr H' \<and> map_of (handles H') 1 = None \<and>
         map_of (handles H') 2 = Some (Populated 10) \<and>
         models H' 10 = Some \<lparr>pointee = panda, use_count = 1\<rparr>)"
proof -
  note ds = delete_safe [of two_handles 1 "Populated 10"]
  have "1 \<noteq> nullptr \<and> map_of (handles two_handles) 1 = Some (Populated 10) \<and>
        refers_live two_handles (Populated 10)"
    by (simp add: two_handles_def refers_live_def)
  with ds obtain H' where H': "RobotModel_delete two_handles 1 = Inr H'"
      "map_of (handles H') 1 = None"
      "\<forall>q. q \<noteq> 1 \<longrightarrow> map_of (handles H') q = map_of (handles two_handles) q"
      "drop_reference (models two_handles) (Populated 10) = Inr (models H')"
    by blast
  from H'(3) have "map_of (handles H') 2 = Some (Populated 10)"
    by (simp add: two_handles_def)
  moreover from H'(4) [symmetric] have "models H' 10 = Some \<lparr>pointee = panda, use_count = 1\<rparr>"
    by (simp add: two_handles_def drop_reference_def)
  ultimately show ?thesis using ds H'(1,2) by blast
qed

subsection \<open>getModelFrame\<close>

text \<open>
  C7. Two non-null handles whose slots refer to the same allocated model get the same
  answer from \<open>RobotModel_getModelFrame\<close>: the frame of that model, with the heap
  unchanged.
\<close>

theorem getModelFrame_shared:
  assumes "p \<noteq> nullptr" and "q \<noteq> nullptr"
    and "map_of (handles H) p = Some (Populated a)"
    and "map_of (handles H) q = Some (Populated a)"
    and "models H a = Some c"
  shows "RobotModel_getModelFrame H p = Inr (getModelFrame (pointee c), H) \<and>
         RobotModel_getModelFrame H q = RobotModel_getModelFrame H p"
  using assms by (simp add: RobotModel_getModelFrame_def deref_arrow_populated)

theorem getModelFrame_shared_witness:
  "RobotModel_getModelFrame two_handles 1 = Inr (''world'', two_handles) \<and>
   RobotModel_getModelFrame two_handles 2 = RobotModel_getModelFrame two_handles 1"
  using getModelFrame_shared [of 1 2 two_handles 10 "\<lparr>pointee = panda, use_count = 2\<rparr>"]
  by (simp add: two_handles_def panda_def)

subsection \<open>printModelInfo\<close>

text \<open>
  C6. On a non-null handle whose slot refers to an allocated model, with \<open>output\<close>
  pointing to an allocated string, \<open>RobotModel_printModelInfo\<close> returns normally and
  the string at \<open>output\<close> holds what the model's dump routine wrote into an empty
  buffer. When the routine keeps its contract (\<open>dump_contract\<close>), that text is
  non-empty and contains the model's name. Nothing but the string at \<open>output\<close>
  changes: the other strings, the handles and the models are as before.
\<close>

theorem printModelInfo_returns_dump:
  assumes "ptr \<noteq> nullptr"
    and "map_of (handles H) ptr = Some (Populated a)"
    and "models H a = Some c"
    and "output \<noteq> nullptr"
    and "strings H output = Some old"
  shows "\<exists>H'. RobotModel_printModelInfo H ptr output = Inr H' \<and>
           strings H' output = Some (printModelInfo (pointee c) []) \<and>
           (\<forall>t. dump_contract (pointee c) \<and> strings H' output = Some t \<longrightarrow>
                t \<noteq> [] \<and> sublist (getName (pointee c)) t) \<and>
           (\<forall>o'. o' \<noteq> output \<longrightarrow> strings H' o' = strings H o') \<and>
           handles H' = handles H \<and> models H' = models H"
proof -
  let ?H' = "H\<lparr>strings := (strings H)(output \<mapsto> dump (pointee c))\<rparr>"
  have "RobotModel_printModelInfo H ptr output = Inr ?H'"
    using assms by (rule printModelInfo_live)
  moreover have "strings ?H' output = Some (printModelInfo (pointee c) [])"
    by (simp add: printModelInfo_def)
  moreover have "\<forall>t. dump_contract (pointee c) \<and> strings ?H' output = Some t \<longrightarrow>
                t \<noteq> [] \<and> sublist (getName (pointee c)) t"
    by (auto simp: dump_contract_def)
  moreover have "\<forall>o'. o' \<noteq> output \<longrightarrow> strings ?H' o' = strings H o'" by simp
  moreover have "handles ?H' = handles H \<and> models ?H' = models H" by simp
  ultimately show ?thesis by blast
qed

theorem printModelInfo_returns_dump_witness:
  "\<exists>H'. RobotModel_printModelInfo two_handles 1 20 = Inr H' \<and>
         strings H' 20 = Some ''Model panda in frame world'' \<and>
         sublist ''panda'' ''Model panda in frame world'' \<and>
         handles H' = handles two_handles \<and> models H' = models two_handles"
proof -
  have h: "(1::nat) \<noteq> nullptr" "map_of (handles two_handles) 1 = Some (Populated 10)"
    "models two_handles 10 = Some \<lparr>pointee = panda, use_count = 2\<rparr>"
    "(20::nat) \<noteq> nullptr" "strings two_handles 20 = Some ''stale''"
    by (simp_all add: two_handles_def)
  have dc: "dump_contract panda" by (simp add: dump_contract_def panda_def sublist_code)
  from printModelInfo_returns_dump [OF h]
  obtain H' where H': "RobotModel_printModelInfo two_handles 1 20 = Inr H'"
    "strings H' 20 = Some (printModelInfo panda [])"
    "\<forall>t. dump_contract panda \<and> strings H' 20 = Some t \<longrightarrow> t \<noteq> [] \<and> sublist (getName panda) t"
    "handles H' = handles two_handles \<and> models H' = models two_handles"
    by auto
  from H'(2) have s: "strings H' 20 = Some ''Model panda in frame world''"
    by (simp add: printModelInfo_def panda_def)
  with H'(3) dc have "sublist (getName panda) ''Model panda in frame world''" by blast
  then have "sublist ''panda'' ''Model panda in frame world''" by (simp add: panda_def)
  with H'(1,4) s show ?thesis by blast
qed

text \<open>
  C10. The string at \<open>output\<close> is assigned, not appended to: whatever it held before
  the call, it holds exactly the dump text afterwards, and replacing the prior content
  by any other text leads to the same heap.
\<close>

theorem printModelInfo_overwrites_output:
  assumes "ptr \<noteq> nullptr"
    and "map_of (handles H) ptr = Some (Populated a)"
    and "models H a = Some c"
    and "output \<noteq> nullptr"
    and "strings H output = Some prior"
  shows "\<exists>H'. RobotModel_printModelInfo H ptr output = Inr H' \<and>
           strings H' output = Some (dump (pointee c)) \<and>
           RobotModel_printModelInfo (H\<lparr>strings := (strings H)(output \<mapsto> other)\<rparr>) ptr output
             = Inr H'"
proof -
  let ?G = "H\<lparr>strings := (strings H)(output \<mapsto> other)\<rparr>"
  have "RobotModel_printModelInfo H ptr output
          = Inr (H\<lparr>strings := (strings H)(output \<mapsto> dump (pointee c))\<rparr>)"
    using assms by (rule printModelInfo_live)
  moreover have "RobotModel_printModelInfo ?G ptr output
          = Inr (?G\<lparr>strings := (strings ?G)(output \<mapsto> dump (pointee c))\<rparr>)"
    using assms(1-4) by (intro printModelInfo_live [where old = other]) simp_all
  ultimately show ?thesis by simp
qed

theorem printModelInfo_overwrites_output_witness:
  "\<exists>H'. RobotModel_printModelInfo two_handles 1 20 = Inr H' \<and>
         strings H' 20 = Some ''Model panda in frame world'' \<and>
         RobotModel_printModelInfo (two_handles\<lparr>strings := (strings two_handles)(20 \<mapsto> ''other'')\<rparr>) 1 20
           = Inr H'"
proof -
  have h: "(1::nat) \<noteq> nullptr" "map_of (handles two_handles) 1 = Some (Populated 10)"
    "models two_handles 10 = Some \<lparr>pointee = panda, use_count = 2\<rparr>"
    "(20::nat) \<noteq> nullptr" "strings two_handles 20 = Some ''stale''"
    by (simp_all add: two_handles_def)
  from printModelInfo_overwrites_output [OF h, of "''other''"] show ?thesis
    by (simp add: panda_def)
qed

subsection \<open>The queries are read-only\<close>

text \<open>
  C8. Whenever one of \<open>getName\<close>, \<open>getModelFrame\<close>, \<open>isEmpty\<close> and
  \<open>getRootJointName\<close> returns, the heap it leaves is the heap it was given; whenever
  \<open>printModelInfo\<close> returns, the handles and the models are as before (only the
  output string is written). So the slot of the handle refers to the same model after
  the call.
\<close>

theorem queries_read_only:
  "(RobotModel_getName H ptr = Inr (s1, H1) \<longrightarrow> H1 = H) \<and>
   (RobotModel_getModelFrame H ptr = Inr (s2, H2) \<longrightarrow> H2 = H) \<and>
   (RobotModel_isEmpty H ptr = Inr (b3, H3) \<longrightarrow> H3 = H) \<and>
   (RobotModel_printModelInfo H ptr output = Inr H4 \<longrightarrow>
      handles H4 = handles H \<and> models H4 = models H) \<and>
   (RobotModel_getRootJointName H ptr = Inr (s5, H5) \<longrightarrow> H5 = H)"
  by (auto simp: RobotModel_getName_def RobotModel_getModelFrame_def RobotModel_isEmpty_def
        RobotModel_getRootJointName_def dest: printModelInfo_InrD split: sum.splits)

theorem queries_read_only_witness:
  "RobotModel_getName two_handles 1 = Inr (''panda'', two_handles) \<and>
   RobotModel_getModelFrame two_handles 1 = Inr (''world'', two_handles) \<and>
   RobotModel_isEmpty two_handles 1 = Inr (False, two_handles) \<and>
   RobotModel_getRootJointName two_handles 1 = Inr (''virtual_joint'', two_handles) \<and>
   (\<exists>H4. RobotModel_printModelInfo two_handles 1 20 = Inr H4 \<and>
         handles H4 = handles two_handles \<and> models H4 = models two_handles \<and>
         map_of (handles H4) 1 = Some (Populated 10))"
proof -
  let ?H4 = "two_handles\<lparr>strings := (strings two_handles)(20 \<mapsto> dump panda)\<rparr>"
  have d: "deref_arrow two_handles (Suc 0) = Inr panda"
    by (simp add: deref_arrow_def deref_def arrow_def two_handles_def)
  have p: "RobotModel_printModelInfo two_handles 1 20 = Inr ?H4"
    using printModelInfo_live [of 1 two_handles 10 "\<lparr>pointee = panda, use_count = 2\<rparr>" 20 "''stale''"]
    by (simp add: two_handles_def)
  note r = queries_read_only [of two_handles 1 "''panda''" two_handles "''world''" two_handles
      False two_handles 20 ?H4 "''virtual_joint''" two_handles]
  have "RobotModel_getName two_handles 1 = Inr (''panda'', two_handles)"
    by (simp add: RobotModel_getName_def d) (simp add: panda_def)
  moreover have "RobotModel_getModelFrame two_handles 1 = Inr (''world'', two_handles)"
    by (simp add: RobotModel_getModelFrame_def d) (simp add: panda_def)
  moreover have "RobotModel_isEmpty two_handles 1 = Inr (False, two_handles)"
    by (simp add: RobotModel_isEmpty_def d) (simp add: panda_def)
  moreover have "RobotModel_getRootJointName two_handles 1 = Inr (''virtual_joint'', two_handles)"
    by (simp add: RobotModel_getRootJointName_def d) (simp add: panda_def)
  moreover have "handles ?H4 = handles two_handles \<and> models ?H4 = models two_handles"
    using r p by simp
  moreover have "map_of (handles ?H4) 1 = Some (Populated 10)"
    by (simp add: two_handles_def)
  ultimately show ?thesis using p by blast
qed

subsection \<open>Where the binding checks its argument\<close>

text \<open>
  C5, with the number of query operations as the source has it (five). Only
  \<open>RobotModel_delete\<close> tests its pointer: on the null pointer it returns the heap
  unchanged, whereas \<open>RobotModel_release\<close> and each of the five query operations
  dereference it and fault. A query on a non-null handle whose slot is \<open>Empty\<close>
  faults as well. So a normal return of release implies a non-null pointer to an
  allocated handle, and a normal return of a query implies moreover a populated slot
  with an allocated model; conversely, under these preconditions (and, for
  \<open>printModelInfo\<close>, an allocated output string) no fault branch is taken.
\<close>

theorem only_delete_checks:
  "RobotModel_delete H nullptr = Inr H \<and>
   RobotModel_release H nullptr = Inl NullDeref \<and>
   run_query H q nullptr output = Inl NullDeref \<and>
   (ptr \<noteq> nullptr \<and> map_of (handles H) ptr = Some Empty \<longrightarrow>
      run_query H q ptr output = Inl EmptyDeref) \<and>
   (RobotModel_release H ptr = Inr H' \<longrightarrow> ptr \<noteq> nullptr \<and> map_of (handles H) ptr \<noteq> None) \<and>
   (run_query H q ptr output = Inr r \<longrightarrow>
      ptr \<noteq> nullptr \<and> (\<exists>a. map_of (handles H) ptr = Some (Populated a) \<and> models H a \<noteq> None)) \<and>
   (ptr \<noteq> nullptr \<and> map_of (handles H) ptr = Some sp \<and> refers_live H sp \<longrightarrow>
      (\<exists>H''. RobotModel_release H ptr = Inr H'')) \<and>
   (ptr \<noteq> nullptr \<and> map_of (handles H) ptr = Some (Populated a) \<and> models H a = Some c \<and>
    (q = PrintModelInfo \<longrightarrow> output \<noteq> nullptr \<and> strings H output \<noteq> None) \<longrightarrow>
      (\<exists>r'. run_query H q ptr output = Inr r')) \<and>
   set query_operations = UNIV \<and> distinct query_operations \<and> length query_operations = 5"
proof (intro conjI impI)
  show "RobotModel_delete H nullptr = Inr H" by (rule delete_null)
  show "RobotModel_release H nullptr = Inl NullDeref" by (rule release_null)
  show "run_query H q nullptr output = Inl NullDeref" by (rule run_query_null)
  show "run_query H q ptr output = Inl EmptyDeref"
    if "ptr \<noteq> nullptr \<and> map_of (handles H) ptr = Some Empty"
    using that by (simp add: run_query_empty)
  show "ptr \<noteq> nullptr" and "map_of (handles H) ptr \<noteq> None" if "RobotModel_release H ptr = Inr H'"
    using release_InrD [OF that] by simp_all
  show "ptr \<noteq> nullptr" and "\<exists>a. map_of (handles H) ptr = Some (Populated a) \<and> models H a \<noteq> None"
    if "run_query H q ptr output = Inr r"
    using run_query_InrD [OF that] by (auto dest!: deref_arrow_InrD)
  show "\<exists>H''. RobotModel_release H ptr = Inr H''"
    if "ptr \<noteq> nullptr \<and> map_of (handles H) ptr = Some sp \<and> refers_live H sp"
  proof -
    from that obtain M' where "drop_reference (models H) sp = Inr M'"
      using drop_reference_live by blast
    with that show ?thesis by (simp add: release_live)
  qed
  show "\<exists>r'. run_query H q ptr output = Inr r'"
    if "ptr \<noteq> nullptr \<and> map_of (handles H) ptr = Some (Populated a) \<and> models H a = Some c \<and>
        (q = PrintModelInfo \<longrightarrow> output \<noteq> nullptr \<and> strings H output \<noteq> None)"
    using that run_query_populated [of ptr H a c q "output"] by simp
  show "set query_operations = UNIV"
  proof -
    have "x \<in> set query_operations" for x
      by (cases x) (simp_all add: query_operations_def)
    then show ?thesis by blast
  qed
  show "distinct query_operations" by (simp add: query_operations_def)
  show "length query_operations = 5" by (simp add: query_operations_def)
qed

theorem only_delete_checks_witness:
  "RobotModel_delete two_handles nullptr = Inr two_handles \<and>
   RobotModel_release two_handles nullptr = Inl NullDeref \<and>
   run_query two_handles GetName nullptr 20 = Inl NullDeref \<and>
   run_query two_handles IsEmpty 3 20 = Inl EmptyDeref \<and>
   RobotModel_release two_handles 3 = Inr two_handles \<and>
   map_of (handles two_handles) 3 \<noteq> None \<and>
   run_query two_handles PrintModelInfo 1 20
     = Inr (Written, two_handles\<lparr>strings := [20 \<mapsto> ''Model panda in frame world'']\<rparr>) \<and>
   (\<exists>a. map_of (handles two_handles) 1 = Some (Populated a) \<and> models two_handles a \<noteq> None) \<and>
   (\<exists>H''. RobotModel_release two_handles 3 = Inr H'') \<and>
   (\<exists>r'. run_query two_handles PrintModelInfo 1 20 = Inr r')"
proof -
  let ?c = "\<lparr>pointee = panda, use_count = 2\<rparr>"
  let ?r = "(Written, two_handles\<lparr>strings := [20 \<mapsto> ''Model panda in frame world'']\<rparr>)"
  note a = only_delete_checks [of two_handles GetName 20 3 two_handles ?r Empty 10 ?c]
  note b = only_delete_checks [of two_handles IsEmpty 20 3 two_handles ?r Empty 10 ?c]
  note c = only_delete_checks [of two_handles PrintModelInfo 20 1 two_handles ?r Empty 10 ?c]
  have e: "3 \<noteq> nullptr \<and> map_of (handles two_handles) 3 = Some Empty"
    by (simp add: two_handles_def)
  have e': "3 \<noteq> nullptr \<and> map_of (handles two_handles) 3 = Some Empty \<and> refers_live two_handles Empty"
    by (simp add: two_handles_def refers_live_def)
  have p: "1 \<noteq> nullptr \<and> map_of (handles two_handles) 1 = Some (Populated 10) \<and>
           models two_handles 10 = Some ?c \<and>
           (PrintModelInfo = PrintModelInfo \<longrightarrow> 20 \<noteq> nullptr \<and> strings two_handles 20 \<noteq> None)"
    by (simp add: two_handles_def)
  have rel: "RobotModel_release two_handles 3 = Inr two_handles"
    by (simp add: RobotModel_release_def deref_def reset_def drop_reference_def two_handles_def)
  have "RobotModel_printModelInfo two_handles 1 20
          = Inr (two_handles\<lparr>strings := (strings two_handles)(20 \<mapsto> dump panda)\<rparr>)"
    using printModelInfo_live [of 1 two_handles 10 ?c 20 "''stale''"]
    by (simp add: two_handles_def)
  then have run: "run_query two_handles PrintModelInfo 1 20 = Inr ?r"
    by (simp add: panda_def two_handles_def)
  have "RobotModel_delete two_handles nullptr = Inr two_handles"
    by (rule a [THEN conjunct1])
  moreover have "RobotModel_release two_handles nullptr = Inl NullDeref"
    by (rule a [THEN conjunct2, THEN conjunct1])
  moreover have "run_query two_handles GetName nullptr 20 = Inl NullDeref"
    by (rule a [THEN conjunct2, THEN conjunct2, THEN conjunct1])
  moreover have "run_query two_handles IsEmpty 3 20 = Inl EmptyDeref"
    by (rule b [THEN conjunct2, THEN conjunct2, THEN conjunct2, THEN conjunct1, THEN mp, OF e])
  moreover note rel
  moreover have "map_of (handles two_handles) 3 \<noteq> None"
    by (rule a [THEN conjunct2, THEN conjunct2, THEN conjunct2, THEN conjunct2, THEN conjunct1,
                THEN mp, OF rel, THEN conjunct2])
  moreover note run
  moreover have "\<exists>a. map_of (handles two_handles) 1 = Some (Populated a) \<and> models two_handles a \<noteq> None"
    by (rule c [THEN conjunct2, THEN conjunct2, THEN conjunct2, THEN conjunct2, THEN conjunct2,
                THEN conjunct1, THEN mp, OF run, THEN conjunct2])
  moreover have "\<exists>H''. RobotModel_release two_handles 3 = Inr H''"
    by (rule a [THEN conjunct2, THEN conjunct2, THEN conjunct2, THEN conjunct2, THEN conjunct2,
                THEN conjunct2, THEN conjunct1, THEN mp, OF e'])
  moreover have "\<exists>r'. run_query two_handles PrintModelInfo 1 20 = Inr r'"
    by (rule c [THEN conjunct2, THEN conjunct2, THEN conjunct2, THEN conjunct2, THEN conjunct2,
                THEN conjunct2, THEN conjunct2, THEN conjunct1, THEN mp, OF p])
  ultimately show ?thesis by (intro conjI)
qed

text \<open>
  C5 as stated speaks of seven query operations, and of the handle and its slot as the
  whole precondition. The source defines five query operations (the functions that read
  the model are exactly those of \<open>query_operations\<close>), and \<open>printModelInfo\<close>
  also dereferences its output pointer unchecked: on the populated handle 1 of the
  sample heap it faults when that pointer is null.
\<close>

theorem query_operations_not_seven:
  "length query_operations \<noteq> 7 \<and>
   map_of (handles two_handles) 1 = Some (Populated 10) \<and>
   models two_handles 10 \<noteq> None \<and>
   run_query two_handles PrintModelInfo 1 nullptr = Inl NullDeref"
proof -
  have "deref_arrow two_handles (Suc 0) = Inr panda"
    by (simp add: deref_arrow_def deref_def arrow_def two_handles_def)
  then have "RobotModel_printModelInfo two_handles 1 nullptr = Inl NullDeref"
    by (simp add: RobotModel_printModelInfo_def assign_string_def)
  then show ?thesis
    by (simp add: query_operations_def two_handles_def)
qed

end
